theory Spec2Isabelle
  imports Main
begin

section \<open>ChatPanel: the component state\<close>

text \<open>
  \<^verbatim>\<open>interface Ride { id: number; pickupLocation: string; dropoffLocation: string }\<close>.
  The field \<^verbatim>\<open>id\<close> is written \<open>id_Ride\<close> (\<open>id\<close> is the identity function of HOL).
  Ride ids are the integers the ride service hands out.
\<close>

record Ride =
  id_Ride :: int
  pickupLocation :: string
  dropoffLocation :: string

text \<open>
  The three \<^verbatim>\<open>useState\<close> cells of \<^verbatim>\<open>ChatPanel\<close>:
  \<^verbatim>\<open>isOpen\<close> (initially false), \<^verbatim>\<open>rides\<close> (initially \<^verbatim>\<open>[]\<close>) and
  \<^verbatim>\<open>selectedRideId: number | null\<close> (initially null, here \<open>None\<close>).
\<close>

record ChatPanel_state =
  isOpen :: bool
  rides :: "Ride list"
  selectedRideId :: "int option"

definition initial :: ChatPanel_state where
  "initial = \<lparr>isOpen = False, rides = [], selectedRideId = None\<rparr>"

definition setIsOpen :: "bool \<Rightarrow> ChatPanel_state \<Rightarrow> ChatPanel_state" where
  "setIsOpen v s = s\<lparr>isOpen := v\<rparr>"

definition setRides :: "Ride list \<Rightarrow> ChatPanel_state \<Rightarrow> ChatPanel_state" where
  "setRides v s = s\<lparr>rides := v\<rparr>"

definition setSelectedRideId :: "int option \<Rightarrow> ChatPanel_state \<Rightarrow> ChatPanel_state" where
  "setSelectedRideId v s = s\<lparr>selectedRideId := v\<rparr>"

section \<open>fetchRides: one poll of the ride service\<close>

text \<open>
  What \<^verbatim>\<open>await fetch(...)\<close> hands back: the promise rejects (network failure) or
  resolves to a response with its \<^verbatim>\<open>ok\<close> flag, its \<^verbatim>\<open>status\<close> and the body
  text read by \<^verbatim>\<open>response.text()\<close>. The body text is kept as what
  \<^verbatim>\<open>JSON.parse\<close> makes of it: \<open>Unparseable\<close> where \<^verbatim>\<open>JSON.parse\<close> throws,
  \<open>Parsed data\<close> where the text is a JSON array of rides (the shape the ride service
  answers with and \<^verbatim>\<open>useState<Ride[]>\<close> expects).
\<close>

datatype json_body = Unparseable | Parsed "Ride list"

record Response =
  ok :: bool
  status :: nat
  body :: json_body

datatype fetch_result = Rejected | Resolved Response

text \<open>
  The exceptions the \<^verbatim>\<open>try\<close> block can raise: the rejected fetch, the
  \<^verbatim>\<open>throw new Error(`HTTP error! status: ...`)\<close> of a non-ok response, and the
  \<^verbatim>\<open>SyntaxError\<close> of \<^verbatim>\<open>JSON.parse\<close> on a body that is not JSON.
\<close>

datatype error = FetchFailed | HTTP_error nat | SyntaxError

text \<open>
  The body of the \<^verbatim>\<open>try\<close> block, statement by statement: the status check comes
  before the parse, the parse before \<^verbatim>\<open>setRides(data)\<close>, and
  \<^verbatim>\<open>setSelectedRideId(data[0].id)\<close> runs only under \<^verbatim>\<open>data.length > 0\<close>.
\<close>

definition fetchRides_try ::
  "fetch_result \<Rightarrow> ChatPanel_state \<Rightarrow> error + ChatPanel_state" where
  "fetchRides_try fr s =
     (case fr of
        Rejected \<Rightarrow> Inl FetchFailed
      | Resolved response \<Rightarrow>
          if \<not> ok response then Inl (HTTP_error (status response))
          else (case body response of
                  Unparseable \<Rightarrow> Inl SyntaxError
                | Parsed data \<Rightarrow>
                    let s1 = setRides data s in
                    Inr (if length data > 0
                         then (case data of d # _ \<Rightarrow> setSelectedRideId (Some (id_Ride d)) s1
                                          | [] \<Rightarrow> s1)
                         else s1)))"

text \<open>
  \<^verbatim>\<open>fetchRides\<close> (\<open>session\<close> says whether \<^verbatim>\<open>useSession\<close> gave a session):
  nothing happens without a session; otherwise the \<^verbatim>\<open>try\<close> block
  runs, and the \<^verbatim>\<open>catch\<close> turns every exception into one \<^verbatim>\<open>console.error\<close>
  line, leaving the state as it was (no setter has run when an exception is raised).
  The result is the new state and the lines written to the console.
\<close>

definition fetchRides ::
  "bool \<Rightarrow> fetch_result \<Rightarrow> ChatPanel_state \<Rightarrow> ChatPanel_state \<times> error list" where
  "fetchRides session fr s =
     (if session
      then (case fetchRides_try fr s of
              Inr s' \<Rightarrow> (s', [])
            | Inl e \<Rightarrow> (s, [e]))
      else (s, []))"

text \<open>
  The effect around it: on mount \<^verbatim>\<open>fetchRides()\<close> runs once and
  \<^verbatim>\<open>setInterval(fetchRides, 3000)\<close> arms a timer; each firing of the timer runs
  \<^verbatim>\<open>fetchRides\<close> again; the cleanup is \<^verbatim>\<open>clearInterval(intervalId)\<close>.
  \<open>interval\<close> is the period in milliseconds of the armed timer, \<open>None\<close> when there is
  none; \<open>console\<close> collects the \<^verbatim>\<open>console.error\<close> lines.
\<close>

record ChatPanel_instance =
  panel :: ChatPanel_state
  interval :: "nat option"
  console :: "error list"

definition effect_mount :: "bool \<Rightarrow> fetch_result \<Rightarrow> ChatPanel_instance" where
  "effect_mount session fr =
     (let (s, lines) = fetchRides session fr initial
      in \<lparr>panel = s, interval = Some 3000, console = lines\<rparr>)"

definition interval_fire ::
  "bool \<Rightarrow> fetch_result \<Rightarrow> ChatPanel_instance \<Rightarrow> ChatPanel_instance" where
  "interval_fire session fr inst =
     (case interval inst of
        None \<Rightarrow> inst
      | Some _ \<Rightarrow>
          (let (s, lines) = fetchRides session fr (panel inst)
           in inst\<lparr>panel := s, console := console inst @ lines\<rparr>))"

definition effect_cleanup :: "ChatPanel_instance \<Rightarrow> ChatPanel_instance" where
  "effect_cleanup inst = inst\<lparr>interval := None\<rparr>"

section \<open>toggleChat, rendering and clicks\<close>

text \<open>\<^verbatim>\<open>const toggleChat = () => { setIsOpen(!isOpen); }\<close>\<close>

definition toggleChat :: "ChatPanel_state \<Rightarrow> ChatPanel_state" where
  "toggleChat s = setIsOpen (\<not> isOpen s) s"

text \<open>
  JavaScript truthiness of a \<^verbatim>\<open>number | null\<close>, as \<^verbatim>\<open>selectedRideId && ...\<close>
  tests it: null and 0 are falsy, every other integer is truthy.
\<close>

fun truthy :: "int option \<Rightarrow> bool" where
  "truthy None = False"
| "truthy (Some n) = (n \<noteq> 0)"

text \<open>
  What the JSX returns, reduced to which controls exist: the floating Chat button
  (\<^verbatim>\<open>isLoggedIn && rides.length > 0\<close>), the panel with its close button
  (\<^verbatim>\<open>isOpen\<close>), one tab per ride inside the panel, and the \<^verbatim>\<open>ChatBox\<close> and
  \<^verbatim>\<open>SendMessage\<close> elements with the \<^verbatim>\<open>rideId\<close> prop they are given
  (\<^verbatim>\<open>selectedRideId && <ChatBox rideId={selectedRideId} />\<close>), \<open>None\<close> when the
  element is not rendered.
\<close>

record ChatPanel_view =
  chatButton :: bool
  closeButton :: bool
  rideTabs :: "int list"
  chatBox :: "int option"
  sendMessage :: "int option"

definition render :: "bool \<Rightarrow> ChatPanel_state \<Rightarrow> ChatPanel_view" where
  "render session s =
     \<lparr>chatButton = (session \<and> length (rides s) > 0),
      closeButton = isOpen s,
      rideTabs = (if isOpen s then map id_Ride (rides s) else []),
      chatBox = (if isOpen s \<and> truthy (selectedRideId s) then selectedRideId s else None),
      sendMessage = (if isOpen s \<and> truthy (selectedRideId s) then selectedRideId s else None)\<rparr>"

text \<open>
  A click on a control runs its \<^verbatim>\<open>onClick\<close> handler; a control that is not rendered
  cannot be clicked (\<open>None\<close>). Both buttons run \<^verbatim>\<open>toggleChat\<close>, a tab runs
  \<^verbatim>\<open>setSelectedRideId(ride.id)\<close>.
\<close>

datatype control = ChatButton | CloseButton | RideTab int

fun click :: "bool \<Rightarrow> ChatPanel_state \<Rightarrow> control \<Rightarrow> ChatPanel_state option" where
  "click session s ChatButton =
     (if chatButton (render session s) then Some (toggleChat s) else None)"
| "click session s CloseButton =
     (if closeButton (render session s) then Some (toggleChat s) else None)"
| "click session s (RideTab i) =
     (if i \<in> set (rideTabs (render session s)) then Some (setSelectedRideId (Some i) s) else None)"

section \<open>ChatBox: the message window\<close>

text \<open>
  A Firestore document of the \<^verbatim>\<open>messages\<close> collection: its id and its fields
  (\<^verbatim>\<open>doc.id\<close>, \<^verbatim>\<open>doc.data()\<close>). \<^verbatim>\<open>createdAt\<close> is a Firestore
  \<^verbatim>\<open>Timestamp\<close>, kept as the integer it orders by. The field \<^verbatim>\<open>text\<close> is
  written \<open>text_Message\<close>. \<^verbatim>\<open>MessageData\<close> is the same fields and the id:
  \<^verbatim>\<open>{ ...doc.data(), id: doc.id }\<close>.
\<close>

record DocumentData =
  text_Message :: string
  name :: string
  avatar :: string
  createdAt :: int
  uid :: string

record QueryDocumentSnapshot =
  id_doc :: string
  data :: DocumentData

record MessageData = DocumentData +
  id_Message :: string

text \<open>
  The database \<^verbatim>\<open>db\<close>: collection paths with their documents, each collection
  listed in document-name order; a path that is not there is an empty collection.
\<close>

type_synonym Firestore = "(string \<times> QueryDocumentSnapshot list) list"

definition collection :: "Firestore \<Rightarrow> string \<Rightarrow> QueryDocumentSnapshot list" where
  "collection db path = (case map_of db path of None \<Rightarrow> [] | Some docs \<Rightarrow> docs)"

text \<open>
  The two query constraints, with the meaning the Firestore SDK documents for them:
  \<^verbatim>\<open>orderBy("createdAt")\<close> sorts ascending by the field (ascending is the default
  direction; documents with equal values stay in document-name order), and
  \<^verbatim>\<open>limit(n)\<close> keeps the first \<open>n\<close> documents of the ordered result
  (the last \<open>n\<close> would be \<^verbatim>\<open>limitToLast(n)\<close>, which the source does not call).
\<close>

definition orderBy_createdAt :: "QueryDocumentSnapshot list \<Rightarrow> QueryDocumentSnapshot list" where
  "orderBy_createdAt docs = sort_key (\<lambda>d. createdAt (data d)) docs"

definition limit :: "nat \<Rightarrow> QueryDocumentSnapshot list \<Rightarrow> QueryDocumentSnapshot list" where
  "limit n docs = take n docs"

text \<open>
  \<^verbatim>\<open>const q = query(collection(db, "messages"), orderBy("createdAt"), limit(10))\<close>,
  as the snapshot it yields on a database. \<^verbatim>\<open>function ChatBox()\<close> takes no props:
  the \<^verbatim>\<open>rideId\<close> that \<^verbatim>\<open>ChatPanel\<close> passes is not read, so the query has no
  ride in it.
\<close>

definition q :: "Firestore \<Rightarrow> QueryDocumentSnapshot list" where
  "q db = limit 10 (orderBy_createdAt (collection db ''messages''))"

text \<open>
  The \<^verbatim>\<open>onSnapshot\<close> callback: \<^verbatim>\<open>querySnapshot.forEach\<close> pushes one
  \<^verbatim>\<open>MessageData\<close> per document, in the snapshot's order, and
  \<^verbatim>\<open>setMessages(messages)\<close> stores the array.
\<close>

definition toMessageData :: "QueryDocumentSnapshot \<Rightarrow> MessageData" where
  "toMessageData doc = DocumentData.extend (data doc) (MessageData.fields (id_doc doc))"

definition onSnapshot_callback :: "QueryDocumentSnapshot list \<Rightarrow> MessageData list" where
  "onSnapshot_callback querySnapshot =
     foldl (\<lambda>messages doc. messages @ [toMessageData doc]) [] querySnapshot"

record ChatBox_state =
  messages :: "MessageData list"

text \<open>
  The life of a \<^verbatim>\<open>ChatBox\<close>: \<^verbatim>\<open>useState([])\<close>, then the effect, whose
  dependency list is \<^verbatim>\<open>[]\<close>: it runs once when the component mounts
  (\<^verbatim>\<open>onSnapshot(q, ...)\<close> registers the listener and the first snapshot arrives),
  its cleanup \<^verbatim>\<open>unsubscribe()\<close> runs when the component unmounts, and a render
  with other props runs neither. Every later change of the collection calls the
  callback with the new snapshot.
\<close>

definition ChatBox_mount :: "Firestore \<Rightarrow> ChatBox_state" where
  "ChatBox_mount db = \<lparr>messages = onSnapshot_callback (q db)\<rparr>"

definition ChatBox_snapshot :: "Firestore \<Rightarrow> ChatBox_state \<Rightarrow> ChatBox_state" where
  "ChatBox_snapshot db c = c\<lparr>messages := onSnapshot_callback (q db)\<rparr>"

text \<open>
  The page: the panel's state, the mounted \<^verbatim>\<open>ChatBox\<close> (if any), and the trace of
  listener registrations, each named by the collection path of its query.
  \<open>reconcile\<close> is what React does with the \<^verbatim>\<open>ChatBox\<close> element after the panel has
  rendered: an element that appears is mounted, one that disappears is unmounted, and
  one that stays (same component, same place, no \<^verbatim>\<open>key\<close>) keeps its instance, whatever
  its \<^verbatim>\<open>rideId\<close> prop is now.
\<close>

datatype listener_event = Subscribe string | Unsubscribe string

record Page =
  chatPanel :: ChatPanel_state
  chatBoxInstance :: "ChatBox_state option"
  trace :: "listener_event list"

definition reconcile :: "bool \<Rightarrow> Firestore \<Rightarrow> Page \<Rightarrow> Page" where
  "reconcile session db p =
     (case chatBox (render session (chatPanel p)) of
        Some rideId \<Rightarrow>
          (case chatBoxInstance p of
             None \<Rightarrow> p\<lparr>chatBoxInstance := Some (ChatBox_mount db),
                       trace := trace p @ [Subscribe ''messages'']\<rparr>
           | Some c \<Rightarrow> p)
      | None \<Rightarrow>
          (case chatBoxInstance p of
             None \<Rightarrow> p
           | Some c \<Rightarrow> p\<lparr>chatBoxInstance := None,
                         trace := trace p @ [Unsubscribe ''messages'']\<rparr>))"

definition page_click :: "bool \<Rightarrow> Firestore \<Rightarrow> Page \<Rightarrow> control \<Rightarrow> Page option" where
  "page_click session db p c =
     (case click session (chatPanel p) c of
        None \<Rightarrow> None
      | Some s \<Rightarrow> Some (reconcile session db (p\<lparr>chatPanel := s\<rparr>)))"

section \<open>Sample data\<close>

abbreviation ride :: "int \<Rightarrow> Ride" where
  "ride n \<equiv> \<lparr>id_Ride = n, pickupLocation = ''A'', dropoffLocation = ''B''\<rparr>"

abbreviation doc :: "string \<Rightarrow> int \<Rightarrow> QueryDocumentSnapshot" where
  "doc i t \<equiv> \<lparr>id_doc = i,
     data = \<lparr>text_Message = ''hi'', name = ''Ann'', avatar = ''a.png'', createdAt = t, uid = ''u1''\<rparr>\<rparr>"

text \<open>
  Eleven messages, listed in document-name order, created at times 1 to 11 (document
  \<open>b\<close> is the newest, document \<open>c\<close> the oldest).
\<close>

definition sample_history :: Firestore where
  "sample_history =
     [(''messages'',
       [doc ''a'' 5, doc ''b'' 11, doc ''c'' 1, doc ''d'' 8, doc ''e'' 2, doc ''f'' 10,
        doc ''g'' 3, doc ''h'' 7, doc ''i'' 4, doc ''j'' 9, doc ''k'' 6])]"

text \<open>
  A database with two messages, and a page whose panel is open on ride 1 of two rides,
  before its \<^verbatim>\<open>ChatBox\<close> has been mounted.
\<close>

definition two_messages :: Firestore where
  "two_messages = [(''messages'', [doc ''a'' 1, doc ''b'' 2])]"

definition page_on_ride_1 :: Page where
  "page_on_ride_1 =
     \<lparr>chatPanel = \<lparr>isOpen = True, rides = [ride 1, ride 2], selectedRideId = Some 1\<rparr>,
      chatBoxInstance = None,
      trace = []\<rparr>"

section \<open>What a poll does\<close>

lemma fetchRides_success:
  "session \<Longrightarrow> ok r \<Longrightarrow> body r = Parsed rs \<Longrightarrow>
   fetchRides session (Resolved r) s =
     (case rs of [] \<Rightarrow> s\<lparr>rides := []\<rparr>
               | d # _ \<Rightarrow> s\<lparr>rides := rs, selectedRideId := Some (id_Ride d)\<rparr>, [])"
  by (simp add: fetchRides_def fetchRides_try_def setRides_def setSelectedRideId_def
      split: list.splits)

lemma fetchRides_failure:
  "\<not> ok r \<or> body r = Unparseable \<Longrightarrow>
   fetchRides session (Resolved r) s =
     (s, if session then [if \<not> ok r then HTTP_error (status r) else SyntaxError] else [])"
  by (auto simp add: fetchRides_def fetchRides_try_def)

lemma fetchRides_rejected:
  "fetchRides session Rejected s = (s, if session then [FetchFailed] else [])"
  by (simp add: fetchRides_def fetchRides_try_def)

lemma fetchRides_no_session: "fetchRides False fr s = (s, [])"
  by (simp add: fetchRides_def)

text \<open>No poll, whatever its outcome, opens or closes the widget.\<close>

lemma fetchRides_isOpen: "isOpen (fst (fetchRides session fr s)) = isOpen s"
  by (simp add: fetchRides_def fetchRides_try_def setRides_def setSelectedRideId_def Let_def
      split: fetch_result.splits json_body.splits list.splits)

section \<open>The selection under polling\<close>

text \<open>
  Claim C1 (selection stability) says that a selected id that still occurs in the new
  ride list survives the poll, so that a manual choice of ride 2 is kept by a later poll
  that still contains ride 2. The component offers that choice (a tab per ride, the
  selected one highlighted), but the poll never reads the old selection. Replayed from
  the start: the first load answers rides 1 and 2 and selects ride 1; the user opens
  the widget and clicks the tab of ride 2, which selects ride 2; the next poll answers
  the same rides 1 and 2 and ride 1 is selected again. The same happens when the poll
  answers rides 1, 2 and 3.
\<close>

theorem manual_selection_overwritten_by_poll:
  "fst (fetchRides True
        (Resolved \<lparr>ok = True, status = 200, body = Parsed [ride 1, ride 2]\<rparr>) initial)
     = \<lparr>isOpen = False, rides = [ride 1, ride 2], selectedRideId = Some 1\<rparr>
   \<and> click True \<lparr>isOpen = False, rides = [ride 1, ride 2], selectedRideId = Some 1\<rparr> ChatButton
     = Some \<lparr>isOpen = True, rides = [ride 1, ride 2], selectedRideId = Some 1\<rparr>
   \<and> click True \<lparr>isOpen = True, rides = [ride 1, ride 2], selectedRideId = Some 1\<rparr> (RideTab 2)
     = Some \<lparr>isOpen = True, rides = [ride 1, ride 2], selectedRideId = Some 2\<rparr>
   \<and> fst (fetchRides True
        (Resolved \<lparr>ok = True, status = 200, body = Parsed [ride 1, ride 2]\<rparr>)
        \<lparr>isOpen = True, rides = [ride 1, ride 2], selectedRideId = Some 2\<rparr>)
     = \<lparr>isOpen = True, rides = [ride 1, ride 2], selectedRideId = Some 1\<rparr>
   \<and> fst (fetchRides True
        (Resolved \<lparr>ok = True, status = 200, body = Parsed [ride 1, ride 2, ride 3]\<rparr>)
        \<lparr>isOpen = True, rides = [ride 1, ride 2], selectedRideId = Some 2\<rparr>)
     = \<lparr>isOpen = True, rides = [ride 1, ride 2, ride 3], selectedRideId = Some 1\<rparr>"
  by (simp add: fetchRides_def fetchRides_try_def setRides_def setSelectedRideId_def initial_def
      render_def toggleChat_def setIsOpen_def)

text \<open>
  Claim C4 (selection reset) says that when the selected id is gone from the new ride
  list, the selection becomes the first new ride, or absent when the new list is empty.
  The empty case fails: \<^verbatim>\<open>setSelectedRideId\<close> runs only under
  \<^verbatim>\<open>data.length > 0\<close>, so after a poll answering \<^verbatim>\<open>[]\<close> ride 2 is still
  selected although no ride is left.
\<close>

theorem selection_reset_counterexample:
  "2 \<notin> set (map id_Ride (rides (fst (fetchRides True
        (Resolved \<lparr>ok = True, status = 200, body = Parsed []\<rparr>)
        \<lparr>isOpen = True, rides = [ride 2], selectedRideId = Some 2\<rparr>))))
   \<and> rides (fst (fetchRides True
        (Resolved \<lparr>ok = True, status = 200, body = Parsed []\<rparr>)
        \<lparr>isOpen = True, rides = [ride 2], selectedRideId = Some 2\<rparr>)) = []
   \<and> selectedRideId (fst (fetchRides True
        (Resolved \<lparr>ok = True, status = 200, body = Parsed []\<rparr>)
        \<lparr>isOpen = True, rides = [ride 2], selectedRideId = Some 2\<rparr>)) = Some 2"
  by (simp add: fetchRides_def fetchRides_try_def setRides_def setSelectedRideId_def)

text \<open>
  Claim C4, amended: after a successful poll in which the selected id does not occur in
  the new ride list, the selection is the id of the first new ride (an id of the current
  list) when the list is not empty, and is left as it was when the list is empty.
\<close>

theorem selection_reset_to_first:
  assumes "session" and "ok r" and "body r = Parsed rs"
    and "\<forall>i. selectedRideId s = Some i \<longrightarrow> i \<notin> set (map id_Ride rs)"
  shows "case rs of
           [] \<Rightarrow> selectedRideId (fst (fetchRides session (Resolved r) s)) = selectedRideId s
         | d # _ \<Rightarrow> selectedRideId (fst (fetchRides session (Resolved r) s)) = Some (id_Ride d)
                 \<and> id_Ride d \<in> set (map id_Ride (rides (fst (fetchRides session (Resolved r) s))))"
  using assms by (simp add: fetchRides_success split: list.splits)

text \<open>
  Claim C4, amended, at the scenario of ride 2 selected and a poll answering rides 1
  and 3: ride 1 becomes selected.
\<close>

theorem selection_reset_to_first_witness:
  "selectedRideId (fst (fetchRides True
        (Resolved \<lparr>ok = True, status = 200, body = Parsed [ride 1, ride 3]\<rparr>)
        \<lparr>isOpen = True, rides = [ride 1, ride 2], selectedRideId = Some 2\<rparr>)) = Some 1
   \<and> 1 \<in> set (map id_Ride (rides (fst (fetchRides True
        (Resolved \<lparr>ok = True, status = 200, body = Parsed [ride 1, ride 3]\<rparr>)
        \<lparr>isOpen = True, rides = [ride 1, ride 2], selectedRideId = Some 2\<rparr>))))"
  using selection_reset_to_first [of True
          "\<lparr>ok = True, status = 200, body = Parsed [ride 1, ride 3]\<rparr>"
          "[ride 1, ride 3]"
          "\<lparr>isOpen = True, rides = [ride 1, ride 2], selectedRideId = Some 2\<rparr>"]
  by simp

text \<open>
  Claim C8 (the poll overrides the selection): after a successful poll with a non-empty
  answer the selection is the id of the first ride of the answer, whatever it was
  before; after a successful poll with an empty answer the ride list is empty and the
  selection is what it was.
\<close>

theorem poll_overrides_selection:
  assumes "session" and "ok r" and "body r = Parsed rs"
  shows "case rs of
           [] \<Rightarrow> rides (fst (fetchRides session (Resolved r) s)) = []
                 \<and> selectedRideId (fst (fetchRides session (Resolved r) s)) = selectedRideId s
         | d # ds \<Rightarrow> rides (fst (fetchRides session (Resolved r) s)) = d # ds
                 \<and> selectedRideId (fst (fetchRides session (Resolved r) s)) = Some (id_Ride d)"
  using assms by (simp add: fetchRides_success split: list.splits)

text \<open>
  Claim C8 at two polls from a state with ride 2 selected: one answering rides 7 and 2,
  one answering no ride.
\<close>

theorem poll_overrides_selection_witness:
  "selectedRideId (fst (fetchRides True
       (Resolved \<lparr>ok = True, status = 200, body = Parsed [ride 7, ride 2]\<rparr>)
       \<lparr>isOpen = True, rides = [ride 2], selectedRideId = Some 2\<rparr>)) = Some 7
   \<and> rides (fst (fetchRides True
       (Resolved \<lparr>ok = True, status = 200, body = Parsed []\<rparr>)
       \<lparr>isOpen = True, rides = [ride 2], selectedRideId = Some 2\<rparr>)) = []
   \<and> selectedRideId (fst (fetchRides True
       (Resolved \<lparr>ok = True, status = 200, body = Parsed []\<rparr>)
       \<lparr>isOpen = True, rides = [ride 2], selectedRideId = Some 2\<rparr>)) = Some 2"
  using poll_overrides_selection [of True
          "\<lparr>ok = True, status = 200, body = Parsed [ride 7, ride 2]\<rparr>"
          "[ride 7, ride 2]" "\<lparr>isOpen = True, rides = [ride 2], selectedRideId = Some 2\<rparr>"]
        poll_overrides_selection [of True "\<lparr>ok = True, status = 200, body = Parsed []\<rparr>"
          "[]" "\<lparr>isOpen = True, rides = [ride 2], selectedRideId = Some 2\<rparr>"]
  by simp

section \<open>Failed polls\<close>

text \<open>
  Claim C6 (failed fetch): a poll whose response is not ok, or whose body does not
  parse, returns the state exactly as it was (the ride list with it) together with one
  console line for the error, so nothing is raised to the caller; and neither such a
  first fetch nor such a firing of the timer touches the timer, which stays armed with
  its period of 3000 ms.
\<close>

theorem failed_fetch_keeps_rides:
  assumes "\<not> ok r \<or> body r = Unparseable"
  shows "fetchRides session (Resolved r) s =
           (s, if session then [if \<not> ok r then HTTP_error (status r) else SyntaxError] else [])
         \<and> panel (interval_fire session (Resolved r) inst) = panel inst
         \<and> interval (interval_fire session (Resolved r) inst) = interval inst
         \<and> panel (effect_mount session (Resolved r)) = initial
         \<and> interval (effect_mount session (Resolved r)) = Some 3000"
  using assms
  by (simp add: fetchRides_failure interval_fire_def effect_mount_def split: option.splits)

text \<open>
  Claim C6 at an HTTP 500 response and at an ok response with an unparseable body, from
  a state with two rides and an armed timer.
\<close>

theorem failed_fetch_keeps_rides_witness:
  "fetchRides True (Resolved \<lparr>ok = False, status = 500, body = Parsed [ride 9]\<rparr>)
        \<lparr>isOpen = True, rides = [ride 1, ride 2], selectedRideId = Some 2\<rparr>
     = (\<lparr>isOpen = True, rides = [ride 1, ride 2], selectedRideId = Some 2\<rparr>, [HTTP_error 500])
   \<and> fetchRides True (Resolved \<lparr>ok = True, status = 200, body = Unparseable\<rparr>)
        \<lparr>isOpen = True, rides = [ride 1, ride 2], selectedRideId = Some 2\<rparr>
     = (\<lparr>isOpen = True, rides = [ride 1, ride 2], selectedRideId = Some 2\<rparr>, [SyntaxError])
   \<and> interval_fire True (Resolved \<lparr>ok = False, status = 500, body = Parsed [ride 9]\<rparr>)
        \<lparr>panel = \<lparr>isOpen = True, rides = [ride 1, ride 2], selectedRideId = Some 2\<rparr>,
         interval = Some 3000, console = []\<rparr>
     = \<lparr>panel = \<lparr>isOpen = True, rides = [ride 1, ride 2], selectedRideId = Some 2\<rparr>,
        interval = Some 3000, console = [HTTP_error 500]\<rparr>"
  using failed_fetch_keeps_rides [of "\<lparr>ok = False, status = 500, body = Parsed [ride 9]\<rparr>" True
          "\<lparr>isOpen = True, rides = [ride 1, ride 2], selectedRideId = Some 2\<rparr>"
          "\<lparr>panel = \<lparr>isOpen = True, rides = [ride 1, ride 2], selectedRideId = Some 2\<rparr>,
            interval = Some 3000, console = []\<rparr>"]
        failed_fetch_keeps_rides [of "\<lparr>ok = True, status = 200, body = Unparseable\<rparr>" True
          "\<lparr>isOpen = True, rides = [ride 1, ride 2], selectedRideId = Some 2\<rparr>"
          "\<lparr>panel = \<lparr>isOpen = True, rides = [ride 1, ride 2], selectedRideId = Some 2\<rparr>,
            interval = Some 3000, console = []\<rparr>"]
  by (simp add: interval_fire_def)

section \<open>Toggling and selecting through the rendered controls\<close>

text \<open>
  Claim C5 (toggle gating) says that toggling with an empty ride list leaves the widget
  closed and that the widget is never open with an empty ride list. Neither holds:
  \<^verbatim>\<open>toggleChat\<close> negates \<^verbatim>\<open>isOpen\<close> without looking at the rides, so it
  opens a closed widget whose ride list is empty; and a poll answering \<^verbatim>\<open>[]\<close>
  empties the ride list of an open widget without closing it.
\<close>

theorem toggle_gating_counterexample:
  "isOpen (toggleChat \<lparr>isOpen = False, rides = [], selectedRideId = None\<rparr>)
   \<and> rides (toggleChat \<lparr>isOpen = False, rides = [], selectedRideId = None\<rparr>) = []
   \<and> isOpen (fst (fetchRides True
        (Resolved \<lparr>ok = True, status = 200, body = Parsed []\<rparr>)
        \<lparr>isOpen = True, rides = [ride 1], selectedRideId = Some 1\<rparr>))
   \<and> rides (fst (fetchRides True
        (Resolved \<lparr>ok = True, status = 200, body = Parsed []\<rparr>)
        \<lparr>isOpen = True, rides = [ride 1], selectedRideId = Some 1\<rparr>)) = []"
  by (simp add: toggleChat_def setIsOpen_def fetchRides_def fetchRides_try_def setRides_def)

text \<open>
  Claim C5, amended: the toggle itself is not gated, it negates the open state whatever
  the ride list holds. The gate is the rendering: the Chat button is rendered exactly
  when there is a session and the ride list is not empty, and on a closed widget it is
  the only control, so a click opens a closed widget exactly when there is a session
  and the ride list is not empty; with an empty ride list no click opens it. A poll
  never changes the open state, so a poll that answers no ride leaves an open widget
  open, with an empty ride list.
\<close>

theorem chat_button_is_the_gate:
  "isOpen (toggleChat s) = (\<not> isOpen s)
   \<and> chatButton (render session s) = (session \<and> rides s \<noteq> [])
   \<and> (\<not> isOpen s \<longrightarrow>
        click session s c
          = (if c = ChatButton \<and> session \<and> rides s \<noteq> [] then Some (toggleChat s) else None))
   \<and> isOpen (fst (fetchRides session' fr s)) = isOpen s
   \<and> (ok r \<and> body r = Parsed [] \<longrightarrow> rides (fst (fetchRides True (Resolved r) s)) = [])"
  by (cases c)
     (simp_all add: render_def toggleChat_def setIsOpen_def fetchRides_isOpen fetchRides_success)

text \<open>
  Claim C5, amended, on closed widgets: logged in with no ride, logged out with a ride,
  logged in with a ride (the Chat button opens it; a tab cannot be clicked), and on an
  open widget whose poll answers no ride.
\<close>

theorem chat_button_is_the_gate_witness:
  "click True \<lparr>isOpen = False, rides = [], selectedRideId = None\<rparr> ChatButton = None
   \<and> click False \<lparr>isOpen = False, rides = [ride 1], selectedRideId = Some 1\<rparr> ChatButton = None
   \<and> chatButton (render False \<lparr>isOpen = False, rides = [ride 1], selectedRideId = Some 1\<rparr>) = False
   \<and> click True \<lparr>isOpen = False, rides = [ride 1], selectedRideId = Some 1\<rparr> ChatButton
     = Some \<lparr>isOpen = True, rides = [ride 1], selectedRideId = Some 1\<rparr>
   \<and> click True \<lparr>isOpen = False, rides = [ride 1], selectedRideId = Some 1\<rparr> (RideTab 1) = None
   \<and> isOpen (fst (fetchRides True
        (Resolved \<lparr>ok = True, status = 200, body = Parsed []\<rparr>)
        \<lparr>isOpen = True, rides = [ride 1], selectedRideId = Some 1\<rparr>))
   \<and> rides (fst (fetchRides True
        (Resolved \<lparr>ok = True, status = 200, body = Parsed []\<rparr>)
        \<lparr>isOpen = True, rides = [ride 1], selectedRideId = Some 1\<rparr>)) = []"
  using chat_button_is_the_gate
          [of "\<lparr>isOpen = False, rides = [], selectedRideId = None\<rparr>" True ChatButton
              True Rejected "\<lparr>ok = True, status = 200, body = Parsed []\<rparr>"]
        chat_button_is_the_gate
          [of "\<lparr>isOpen = False, rides = [ride 1], selectedRideId = Some 1\<rparr>" False ChatButton
              True Rejected "\<lparr>ok = True, status = 200, body = Parsed []\<rparr>"]
        chat_button_is_the_gate
          [of "\<lparr>isOpen = False, rides = [ride 1], selectedRideId = Some 1\<rparr>" True ChatButton
              True Rejected "\<lparr>ok = True, status = 200, body = Parsed []\<rparr>"]
        chat_button_is_the_gate
          [of "\<lparr>isOpen = False, rides = [ride 1], selectedRideId = Some 1\<rparr>" True "RideTab 1"
              True Rejected "\<lparr>ok = True, status = 200, body = Parsed []\<rparr>"]
        chat_button_is_the_gate
          [of "\<lparr>isOpen = True, rides = [ride 1], selectedRideId = Some 1\<rparr>" True ChatButton
              True "Resolved \<lparr>ok = True, status = 200, body = Parsed []\<rparr>"
              "\<lparr>ok = True, status = 200, body = Parsed []\<rparr>"]
  by (simp add: toggleChat_def setIsOpen_def)




text \<open>
  Claim C9 (toggle is an involution): \<^verbatim>\<open>toggleChat\<close> negates \<^verbatim>\<open>isOpen\<close> and
  touches nothing else, in every state, so two toggles in a row give the state back; it
  reads neither the ride list nor the session.
\<close>

theorem toggle_involution:
  "toggleChat (toggleChat s) = s
   \<and> isOpen (toggleChat s) = (\<not> isOpen s)
   \<and> rides (toggleChat s) = rides s
   \<and> selectedRideId (toggleChat s) = selectedRideId s"
  by (simp add: toggleChat_def setIsOpen_def)

text \<open>
  Claim C10 (ride id 0 behaves as no selection): with the panel open and ride id 0
  selected, neither the \<^verbatim>\<open>ChatBox\<close> nor the \<^verbatim>\<open>SendMessage\<close> element is
  rendered, because \<^verbatim>\<open>selectedRideId && ...\<close> tests truthiness and 0 is falsy.
\<close>

theorem ride_zero_renders_no_chat:
  assumes "isOpen s" and "selectedRideId s = Some 0"
  shows "chatBox (render session s) = None \<and> sendMessage (render session s) = None"
  using assms by (simp add: render_def)

text \<open>Claim C10 at an open panel whose only ride has id 0.\<close>

theorem ride_zero_renders_no_chat_witness:
  "isOpen \<lparr>isOpen = True, rides = [ride 0], selectedRideId = Some 0\<rparr>
   \<and> chatBox (render True \<lparr>isOpen = True, rides = [ride 0], selectedRideId = Some 0\<rparr>) = None
   \<and> sendMessage (render True \<lparr>isOpen = True, rides = [ride 0], selectedRideId = Some 0\<rparr>) = None"
  using ride_zero_renders_no_chat
          [of "\<lparr>isOpen = True, rides = [ride 0], selectedRideId = Some 0\<rparr>" True]
  by simp

text \<open>A non-zero selection, for contrast, renders both elements with that ride id.\<close>

lemma nonzero_ride_renders_chat:
  "isOpen s \<Longrightarrow> selectedRideId s = Some i \<Longrightarrow> i \<noteq> 0 \<Longrightarrow>
   chatBox (render session s) = Some i \<and> sendMessage (render session s) = Some i"
  by (simp add: render_def)

section \<open>The message window\<close>

lemma onSnapshot_callback_map: "onSnapshot_callback docs = map toMessageData docs"
proof -
  have "foldl (\<lambda>messages doc. messages @ [toMessageData doc]) acc docs
        = acc @ map toMessageData docs" for acc
    by (induction docs arbitrary: acc) simp_all
  then show ?thesis by (simp add: onSnapshot_callback_def)
qed

lemma createdAt_toMessageData: "createdAt (toMessageData d) = createdAt (data d)"
  by (simp add: toMessageData_def DocumentData.defs)

lemma id_Message_toMessageData: "id_Message (toMessageData d) = id_doc d"
  by (simp add: toMessageData_def DocumentData.defs MessageData.defs)

lemma map_insort_key: "map f (insort_key f x xs) = insort (f x) (map f xs)"
  by (induction xs) simp_all

lemma map_sort_key: "map f (sort_key f xs) = sort (map f xs)"
  by (induction xs) (simp_all add: map_insort_key)

text \<open>
  The creation times in the window are the first ten of the sorted creation times of
  the whole collection: the ten smallest, which are the ten oldest messages.
\<close>

lemma window_created:
  "map createdAt (onSnapshot_callback (q db))
   = take 10 (sort (map (\<lambda>d. createdAt (data d)) (collection db ''messages'')))"
proof -
  have "map createdAt (onSnapshot_callback (q db))
        = take 10 (map (\<lambda>d. createdAt (data d))
            (orderBy_createdAt (collection db ''messages'')))"
    by (simp add: onSnapshot_callback_map q_def limit_def take_map createdAt_toMessageData
        cong: map_cong)
  then show ?thesis
    by (simp add: orderBy_createdAt_def map_sort_key)
qed

text \<open>The window never holds more than ten messages, and they ascend by creation time.\<close>

lemma window_length: "length (onSnapshot_callback (q db)) \<le> 10"
  by (simp add: onSnapshot_callback_map q_def limit_def)

lemma window_sorted: "sorted (map createdAt (onSnapshot_callback (q db)))"
  by (simp add: window_created)

text \<open>
  Claim C3 (window bound and ordering) says that the window holds at most ten messages
  in ascending order of creation and, when the history is longer, the ten most recent
  ones. The bound and the order hold (see above), but the window is the ten oldest:
  on a history of eleven messages created at times 1 to 11, the mounted
  \<^verbatim>\<open>ChatBox\<close> holds the messages of times 1 to 10 and the newest message, document
  \<open>b\<close> of time 11, is the one left out.
\<close>

theorem window_drops_newest:
  "map (\<lambda>d. createdAt (data d)) (collection sample_history ''messages'')
     = [5, 11, 1, 8, 2, 10, 3, 7, 4, 9, 6]
   \<and> map createdAt (messages (ChatBox_mount sample_history)) = [1, 2, 3, 4, 5, 6, 7, 8, 9, 10]
   \<and> map id_Message (messages (ChatBox_mount sample_history))
     = [''c'', ''e'', ''g'', ''i'', ''a'', ''k'', ''h'', ''d'', ''j'', ''f'']"
  by (simp add: ChatBox_mount_def onSnapshot_callback_map q_def limit_def orderBy_createdAt_def
      collection_def sample_history_def createdAt_toMessageData id_Message_toMessageData)

section \<open>The subscription when the selection changes\<close>

text \<open>
  A click on the tab of another ride, while a \<^verbatim>\<open>ChatBox\<close> is mounted, changes the
  selection and nothing else: the instance, its messages and the listener trace stay.
\<close>

lemma tab_switch_no_resubscribe:
  assumes "isOpen (chatPanel p)" and "chatBoxInstance p = Some c"
    and "i \<in> set (map id_Ride (rides (chatPanel p)))" and "i \<noteq> 0"
  shows "page_click session db p (RideTab i)
         = Some (p\<lparr>chatPanel := setSelectedRideId (Some i) (chatPanel p)\<rparr>)"
  using assms
  by (simp add: page_click_def reconcile_def render_def setSelectedRideId_def)

text \<open>
  Claim C2 (per-ride subscription) says that the window holds only the messages of the
  selected ride and that a change of the selection releases the old subscription and
  registers one for the new ride. On the page open on ride 1, mounting the
  \<^verbatim>\<open>ChatBox\<close> registers one listener, on the whole \<^verbatim>\<open>messages\<close> collection;
  after the click on the tab of ride 2 the selection is 2, and the trace still holds
  that one registration only (nothing released, nothing registered) and the window is
  the same two messages as before.
\<close>

theorem tab_switch_keeps_subscription:
  "reconcile True two_messages page_on_ride_1
     = \<lparr>chatPanel = \<lparr>isOpen = True, rides = [ride 1, ride 2], selectedRideId = Some 1\<rparr>,
        chatBoxInstance = Some (ChatBox_mount two_messages),
        trace = [Subscribe ''messages'']\<rparr>
   \<and> page_click True two_messages (reconcile True two_messages page_on_ride_1) (RideTab 2)
     = Some \<lparr>chatPanel = \<lparr>isOpen = True, rides = [ride 1, ride 2], selectedRideId = Some 2\<rparr>,
             chatBoxInstance = Some (ChatBox_mount two_messages),
             trace = [Subscribe ''messages'']\<rparr>
   \<and> map id_Message (messages (ChatBox_mount two_messages)) = [''a'', ''b'']"
  by (simp add: reconcile_def page_click_def page_on_ride_1_def render_def setSelectedRideId_def
      ChatBox_mount_def onSnapshot_callback_map q_def limit_def orderBy_createdAt_def
      collection_def two_messages_def id_Message_toMessageData)

end
